theory Spec2Isabelle
  imports Main
begin

section \<open>FeReader: reader state, exceptions and user-interface effects\<close>

text \<open>
  The model follows \<^verbatim>\<open>src/main.py\<close>, class \<^verbatim>\<open>FeReaderWindow\<close>.
  The six attributes under the comment \<^verbatim>\<open>--- Reader state ---\<close> form the record
  \<open>reader\<close>. Python's \<^verbatim>\<open>None\<close> for the book type and the book path is \<open>None\<close> of an
  option type. Python integers are unbounded, so the cursor and the font size are
  \<open>int\<close>. A Python string is a \<open>string\<close>; one \<open>char\<close> stands for one code point below 256.
\<close>

record reader =
  current_book_type :: "string option"
  current_book_path :: "string option"
  current_book_title :: string
  pages :: "string list"
  current_index :: int
  current_font_size :: int

text \<open>The state built by \<^verbatim>\<open>__init__\<close>.\<close>

definition init :: reader where
  "init = \<lparr>current_book_type = None, current_book_path = None,
           current_book_title = ''Untitled'', pages = [],
           current_index = 0, current_font_size = 12\<rparr>"

text \<open>
  Exceptions are values. \<open>IndexError\<close> is what list indexing raises out of range;
  \<open>LibraryError\<close> carries the message of an exception raised inside PyPDF2, ebooklib
  or BeautifulSoup.
\<close>

datatype exn = IndexError | LibraryError string

text \<open>
  What the widgets are asked to do, in the order of the calls: the two message boxes
  of \<^verbatim>\<open>open_file\<close>, the about box, the text view's \<^verbatim>\<open>setPlainText\<close>,
  \<^verbatim>\<open>setHtml\<close> and font size, and the status bar's \<^verbatim>\<open>showMessage\<close>.
\<close>

datatype ui_event =
    Warning string string
  | Critical string string
  | Information string string
  | SetPlainText string
  | SetHtml string
  | SetPointSize int
  | ShowMessage string

text \<open>
  An operation mutates the attributes, talks to widgets, and may leave through an
  exception; attributes assigned before the exception stay assigned. The outcome of a
  call is therefore the final state, the widget calls made, and the exception if one
  escaped.
\<close>

record outcome =
  final :: reader
  shown :: "ui_event list"
  raised :: "exn option"

definition returns :: "reader \<Rightarrow> ui_event list \<Rightarrow> outcome" where
  "returns s evs = \<lparr>final = s, shown = evs, raised = None\<rparr>"

definition raises :: "reader \<Rightarrow> ui_event list \<Rightarrow> exn \<Rightarrow> outcome" where
  "raises s evs e = \<lparr>final = s, shown = evs, raised = Some e\<rparr>"

subsection \<open>Python primitives used by the source\<close>

text \<open>
  \<^verbatim>\<open>xs[i]\<close>: a negative index counts from the end, and an index outside
  \<open>[-len, len)\<close> raises \<open>IndexError\<close>.
\<close>

definition py_index :: "'a list \<Rightarrow> int \<Rightarrow> exn + 'a" where
  "py_index xs i =
     (if 0 \<le> i \<and> i < int (length xs) then Inr (xs ! nat i)
      else if i < 0 \<and> - int (length xs) \<le> i then Inr (xs ! nat (i + int (length xs)))
      else Inl IndexError)"

text \<open>\<^verbatim>\<open>str(n)\<close> for an integer, as the f-string of the status bar formats it.\<close>

definition digit_char :: "nat \<Rightarrow> char" where
  "digit_char d = char_of (48 + d)"

fun str_nat :: "nat \<Rightarrow> string" where
  "str_nat n = (if n < 10 then [digit_char n] else str_nat (n div 10) @ [digit_char (n mod 10)])"

definition str_int :: "int \<Rightarrow> string" where
  "str_int i = (if i < 0 then CHR ''-'' # str_nat (nat (- i)) else str_nat (nat i))"

section \<open>Display\<close>

text \<open>
  \<^verbatim>\<open>_update_statusbar\<close> (lines 110-115): with pages, title, two spaces, a bar, two
  spaces, \<^verbatim>\<open>Page i+1 / len\<close>; without, a fixed text.
\<close>

definition update_statusbar :: "reader \<Rightarrow> ui_event list" where
  "update_statusbar s =
     (if pages s \<noteq> []
      then [ShowMessage (current_book_title s @ ''  |  Page '' @ str_int (current_index s + 1)
                          @ '' / '' @ str_int (int (length (pages s))))]
      else [ShowMessage ''No document loaded''])"

text \<open>
  \<^verbatim>\<open>_update_view\<close> (lines 178-192). Without pages it shows a fixed text and reads
  nothing from \<open>pages\<close>. With pages it evaluates \<^verbatim>\<open>self.pages[self.current_index]\<close>,
  the only subscript of the program, which raises when the cursor is out of range; the
  statements after it are then not reached. It assigns no attribute.
\<close>

definition update_view :: "reader \<Rightarrow> outcome" where
  "update_view s =
     (if pages s = []
      then returns s ([SetPlainText ''No document loaded.'', SetPointSize (current_font_size s)]
                      @ update_statusbar s)
      else (case py_index (pages s) (current_index s) of
              Inl e \<Rightarrow> raises s [] e
            | Inr content \<Rightarrow>
                returns s ([if current_book_type s = Some ''epub''
                            then SetHtml content else SetPlainText content,
                            SetPointSize (current_font_size s)]
                           @ update_statusbar s)))"

section \<open>Navigation\<close>

text \<open>\<^verbatim>\<open>go_prev\<close> (lines 194-199).\<close>

definition go_prev :: "reader \<Rightarrow> outcome" where
  "go_prev s =
     (if pages s = [] then returns s []
      else if current_index s > 0
           then update_view (s\<lparr>current_index := current_index s - 1\<rparr>)
           else returns s [])"

text \<open>\<^verbatim>\<open>go_next\<close> (lines 201-206).\<close>

definition go_next :: "reader \<Rightarrow> outcome" where
  "go_next s =
     (if pages s = [] then returns s []
      else if current_index s < int (length (pages s)) - 1
           then update_view (s\<lparr>current_index := current_index s + 1\<rparr>)
           else returns s [])"

text \<open>
  \<^verbatim>\<open>go_to_page_dialog\<close> (lines 208-225). \<^verbatim>\<open>QInputDialog.getInt\<close> is the
  toolkit's: the model takes it as a function from the initial value, the minimum and
  the maximum it is called with to the pair \<^verbatim>\<open>(value, ok)\<close> it returns. Without
  pages the dialog is not opened.
\<close>

type_synonym get_int = "int \<Rightarrow> int \<Rightarrow> int \<Rightarrow> int \<times> bool"

definition go_to_page_dialog :: "get_int \<Rightarrow> reader \<Rightarrow> outcome" where
  "go_to_page_dialog getInt s =
     (if pages s = [] then returns s []
      else (let max_page = int (length (pages s));
                current_page_display = current_index s + 1;
                (v, ok) = getInt current_page_display 1 max_page
            in if ok then update_view (s\<lparr>current_index := v - 1\<rparr>)
               else returns s []))"

section \<open>Zoom\<close>

text \<open>\<^verbatim>\<open>zoom_in\<close> (lines 229-233) and \<^verbatim>\<open>zoom_out\<close> (lines 235-239).\<close>

definition zoom_in :: "reader \<Rightarrow> outcome" where
  "zoom_in s =
     (let s1 = s\<lparr>current_font_size := current_font_size s + 1\<rparr>;
          s2 = (if current_font_size s1 > 40 then s1\<lparr>current_font_size := 40\<rparr> else s1)
      in update_view s2)"

definition zoom_out :: "reader \<Rightarrow> outcome" where
  "zoom_out s =
     (let s1 = s\<lparr>current_font_size := current_font_size s - 1\<rparr>;
          s2 = (if current_font_size s1 < 8 then s1\<lparr>current_font_size := 8\<rparr> else s1)
      in update_view s2)"

text \<open>\<^verbatim>\<open>show_about\<close> (lines 243-248).\<close>

definition show_about :: "reader \<Rightarrow> outcome" where
  "show_about s =
     returns s [Information ''About FeReader''
       (''FeReader'' @ [CHR 0x0A] @ ''Simple PDF & EPUB Reader'' @ [CHR 0x0A]
        @ ''Powered by PyQt5, PyPDF2, and ebooklib.'')]"

section \<open>Loading documents\<close>

subsection \<open>Library calls as parameters\<close>

text \<open>
  A Python \<^verbatim>\<open>for\<close> loop asks its iterable for one element after another; each
  request yields an element, ends the loop, or raises.
\<close>

datatype 'a iteration = Stop | Abort exn | Next 'a "'a iteration"

text \<open>
  A PDF page object is known by what its \<^verbatim>\<open>extract_text()\<close> does: it raises, or
  it returns \<^verbatim>\<open>None\<close> or a string.
\<close>

datatype pdf_page = ExtractRaises exn | ExtractReturns "string option"

text \<open>
  An EPUB document item is known by what lines 165-169 make of it: decoding and
  \<^verbatim>\<open>BeautifulSoup(...).prettify()\<close> raise, or give the cleaned HTML.
\<close>

type_synonym epub_item = "exn + string"

text \<open>
  The two parsers: \<^verbatim>\<open>PdfReader(path)\<close> followed by \<^verbatim>\<open>reader.pages\<close>, and
  \<^verbatim>\<open>epub.read_epub(path)\<close> followed by \<^verbatim>\<open>get_items_of_type(ITEM_DOCUMENT)\<close>.
  Each raises or gives the iteration the loop runs over.
\<close>

record library =
  PdfReader :: "string \<Rightarrow> exn + pdf_page iteration"
  read_epub :: "string \<Rightarrow> exn + epub_item iteration"

subsection \<open>String methods\<close>

text \<open>
  \<^verbatim>\<open>str.isspace\<close> on one code point below 256: tab to carriage return, the four
  separators 28-31, space, NEL and the no-break space.
\<close>

definition is_space :: "char \<Rightarrow> bool" where
  "is_space c = ((of_char c :: nat) \<in> {9, 10, 11, 12, 13, 28, 29, 30, 31, 32, 133, 160})"

text \<open>\<^verbatim>\<open>str.strip()\<close>: leading and trailing whitespace removed.\<close>

definition strip :: "string \<Rightarrow> string" where
  "strip t = rev (dropWhile is_space (rev (dropWhile is_space t)))"

text \<open>
  \<^verbatim>\<open>str.lower()\<close> on code points below 256: the ASCII capitals and the Latin-1
  capitals (192-222 but the multiplication sign 215) move up by 32.
\<close>

definition lower_char :: "char \<Rightarrow> char" where
  "lower_char c =
     (let n = (of_char c :: nat)
      in if (65 \<le> n \<and> n \<le> 90) \<or> (192 \<le> n \<and> n \<le> 222 \<and> n \<noteq> 215)
         then char_of (n + 32) else c)"

definition lower :: "string \<Rightarrow> string" where
  "lower t = map lower_char t"

text \<open>\<^verbatim>\<open>str.rfind\<close> of one character: the last position holding it, or -1.\<close>

definition rfind :: "char \<Rightarrow> string \<Rightarrow> int" where
  "rfind c p = (case filter (\<lambda>i. p ! i = c) (rev [0..<length p]) of
                  [] \<Rightarrow> - 1 | i # _ \<Rightarrow> int i)"

text \<open>
  \<^verbatim>\<open>os.path.splitext\<close> (the POSIX flavour; the file dialog returns paths
  separated by slashes): the extension starts at the last dot, provided that dot comes
  after the last slash and some character between the slash and the dot is not a dot;
  otherwise the extension is empty.
\<close>

definition splitext :: "string \<Rightarrow> string \<times> string" where
  "splitext p =
     (let sepIndex = rfind CHR ''/'' p;
          dotIndex = rfind CHR ''.'' p
      in if dotIndex > sepIndex
            \<and> list_ex (\<lambda>k. p ! k \<noteq> CHR ''.'') [nat (sepIndex + 1)..<nat dotIndex]
         then (take (nat dotIndex) p, drop (nat dotIndex) p)
         else (p, []))"

text \<open>\<^verbatim>\<open>os.path.basename\<close>: what follows the last slash.\<close>

definition basename :: "string \<Rightarrow> string" where
  "basename p = drop (nat (rfind CHR ''/'' p + 1)) p"

text \<open>\<^verbatim>\<open>str(e)\<close> of an exception, as the f-string of the error box formats it.\<close>

fun exn_str :: "exn \<Rightarrow> string" where
  "exn_str IndexError = ''list index out of range''"
| "exn_str (LibraryError m) = m"

subsection \<open>The two extractors\<close>

text \<open>
  Lines 151-155, for one page: the text is the extracted string, or the empty string
  when extraction raises or returns a false value (\<^verbatim>\<open>None\<close> or the empty string);
  the unit appended is the text if its \<^verbatim>\<open>strip()\<close> is non-empty, else the placeholder.
\<close>

definition page_text :: "pdf_page \<Rightarrow> string" where
  "page_text page =
     (case page of
        ExtractRaises e \<Rightarrow> []
      | ExtractReturns None \<Rightarrow> []
      | ExtractReturns (Some t) \<Rightarrow> (if t = [] then [] else t))"

definition page_unit :: "pdf_page \<Rightarrow> string" where
  "page_unit page = (let text = page_text page in if strip text \<noteq> [] then text else ''[Empty page]'')"

text \<open>The loop of \<^verbatim>\<open>load_pdf\<close> (lines 150-155): one append per page yielded.\<close>

fun pdf_loop :: "pdf_page iteration \<Rightarrow> reader \<Rightarrow> outcome" where
  "pdf_loop Stop s = returns s []"
| "pdf_loop (Abort e) s = raises s [] e"
| "pdf_loop (Next page rest) s = pdf_loop rest (s\<lparr>pages := pages s @ [page_unit page]\<rparr>)"

text \<open>
  \<^verbatim>\<open>load_pdf\<close> (lines 145-155): the book type and the empty page list are assigned
  before the parser is called.
\<close>

definition load_pdf :: "library \<Rightarrow> string \<Rightarrow> reader \<Rightarrow> outcome" where
  "load_pdf lib path s =
     (let s1 = s\<lparr>current_book_type := Some ''pdf'', pages := []\<rparr>
      in case PdfReader lib path of
           Inl e \<Rightarrow> raises s1 [] e
         | Inr reader_pages \<Rightarrow> pdf_loop reader_pages s1)"

text \<open>The loop of \<^verbatim>\<open>load_epub\<close> (lines 164-171).\<close>

fun epub_loop :: "epub_item iteration \<Rightarrow> reader \<Rightarrow> outcome" where
  "epub_loop Stop s = returns s []"
| "epub_loop (Abort e) s = raises s [] e"
| "epub_loop (Next (Inl e) rest) s = raises s [] e"
| "epub_loop (Next (Inr clean_html) rest) s = epub_loop rest (s\<lparr>pages := pages s @ [clean_html]\<rparr>)"

text \<open>
  \<^verbatim>\<open>load_epub\<close> (lines 157-174): as for PDF, and after a loop that ended normally
  with no page, the placeholder is appended.
\<close>

definition load_epub :: "library \<Rightarrow> string \<Rightarrow> reader \<Rightarrow> outcome" where
  "load_epub lib path s =
     (let s1 = s\<lparr>current_book_type := Some ''epub'', pages := []\<rparr>
      in case read_epub lib path of
           Inl e \<Rightarrow> raises s1 [] e
         | Inr items \<Rightarrow>
             (let r = epub_loop items s1
              in if raised r = None \<and> pages (final r) = []
                 then returns ((final r)\<lparr>pages := pages (final r) @ [''<h3>No readable content found.</h3>'']\<rparr>) []
                 else r))"

subsection \<open>Opening a file\<close>

text \<open>
  The body of the \<^verbatim>\<open>try\<close> block of \<^verbatim>\<open>open_file\<close> (lines 126-135): the
  extractor chosen by the lowercased extension, or none.
\<close>

definition try_load :: "library \<Rightarrow> string \<Rightarrow> reader \<Rightarrow> outcome option" where
  "try_load lib path s =
     (let ext = lower (snd (splitext path))
      in if ext = ''.pdf'' then Some (load_pdf lib path s)
         else if ext = ''.epub'' then Some (load_epub lib path s)
         else None)"

text \<open>
  \<^verbatim>\<open>open_file\<close> (lines 119-143). \<open>path\<close> is what \<^verbatim>\<open>getOpenFileName\<close> returned,
  empty when the dialog was cancelled. An exception of the extractor is caught: the
  error box is shown and the method returns, with the attributes as the extractor left
  them.
\<close>

definition open_file :: "library \<Rightarrow> string \<Rightarrow> reader \<Rightarrow> outcome" where
  "open_file lib path s =
     (if path = [] then returns s []
      else (case try_load lib path s of
              None \<Rightarrow> returns s [Warning ''Unsupported file'' ''Only PDF and EPUB are supported.'']
            | Some r \<Rightarrow>
                (case raised r of
                   Some e \<Rightarrow>
                     returns (final r)
                       [Critical ''Error'' (''Failed to open file:'' @ [CHR 0x0A] @ exn_str e)]
                 | None \<Rightarrow>
                     update_view ((final r)\<lparr>current_book_path := Some path,
                                            current_book_title := basename path,
                                            current_index := 0\<rparr>))))"

section \<open>Commands of the tool bar\<close>

text \<open>
  The actions connected in \<^verbatim>\<open>_create_toolbar\<close> (lines 52-103), each with what the
  toolkit supplies to it: the path the file dialog returned, the answer of the page
  dialog.
\<close>

datatype command =
    OpenFile string
  | GoPrev
  | GoNext
  | GoToPage get_int
  | ZoomIn
  | ZoomOut
  | About

fun step :: "library \<Rightarrow> command \<Rightarrow> reader \<Rightarrow> outcome" where
  "step lib (OpenFile path) s = open_file lib path s"
| "step lib GoPrev s = go_prev s"
| "step lib GoNext s = go_next s"
| "step lib (GoToPage getInt) s = go_to_page_dialog getInt s"
| "step lib ZoomIn s = zoom_in s"
| "step lib ZoomOut s = zoom_out s"
| "step lib About s = show_about s"

text \<open>The states the program can be in: the initial one and those after any command.\<close>

inductive reachable :: "library \<Rightarrow> reader \<Rightarrow> bool" for lib :: library where
  start: "reachable lib init"
| after: "reachable lib s \<Longrightarrow> reachable lib (final (step lib c s))"

section \<open>The filter of the file dialog\<close>









section \<open>Notions used in the statements\<close>

text \<open>What an iteration yields before it ends, and the exception it ends with, if any.\<close>

fun yielded :: "'a iteration \<Rightarrow> 'a list" where
  "yielded Stop = []"
| "yielded (Abort e) = []"
| "yielded (Next x rest) = x # yielded rest"

fun ended :: "'a iteration \<Rightarrow> exn option" where
  "ended Stop = None"
| "ended (Abort e) = Some e"
| "ended (Next x rest) = ended rest"

text \<open>
  The same for the items of an EPUB, where the processing of an item may raise too:
  the cleaned HTML of the items before the first failure, and that failure.
\<close>

fun epub_units :: "epub_item iteration \<Rightarrow> string list" where
  "epub_units Stop = []"
| "epub_units (Abort e) = []"
| "epub_units (Next (Inl e) rest) = []"
| "epub_units (Next (Inr clean_html) rest) = clean_html # epub_units rest"

fun epub_error :: "epub_item iteration \<Rightarrow> exn option" where
  "epub_error Stop = None"
| "epub_error (Abort e) = Some e"
| "epub_error (Next (Inl e) rest) = Some e"
| "epub_error (Next (Inr clean_html) rest) = epub_error rest"

text \<open>The font size bound and the cursor bound.\<close>

definition font_ok :: "reader \<Rightarrow> bool" where
  "font_ok s = (8 \<le> current_font_size s \<and> current_font_size s \<le> 40)"

definition cursor_in_range :: "reader \<Rightarrow> bool" where
  "cursor_in_range s = (0 \<le> current_index s \<and> current_index s \<le> int (length (pages s)) - 1)"

definition cursor_ok :: "reader \<Rightarrow> bool" where
  "cursor_ok s = (pages s = [] \<or> cursor_in_range s)"

text \<open>
  A command whose toolkit and library answers are as expected: the page dialog, when
  accepted, returns a value between the minimum 1 and the maximum it was given, and the
  extractor of an opened file does not raise.
\<close>

fun well_answered :: "library \<Rightarrow> reader \<Rightarrow> command \<Rightarrow> bool" where
  "well_answered lib s (OpenFile path) =
     (case try_load lib path s of None \<Rightarrow> True | Some r \<Rightarrow> raised r = None)"
| "well_answered lib s (GoToPage getInt) =
     (case getInt (current_index s + 1) 1 (int (length (pages s))) of
        (v, ok) \<Rightarrow> (if ok then 1 \<le> v \<and> v \<le> int (length (pages s)) else True))"
| "well_answered lib s c = True"


section \<open>Sample inputs\<close>

text \<open>A reader showing the last of three pages of a PDF.\<close>

definition three_pages :: reader where
  "three_pages = \<lparr>current_book_type = Some ''pdf'', current_book_path = Some ''/books/old.pdf'',
                  current_book_title = ''old.pdf'', pages = [''one'', ''two'', ''three''],
                  current_index = 2, current_font_size = 12\<rparr>"

text \<open>
  A file system with a four-page PDF (text, no text layer, a failing page, a blank
  page), a PDF without pages, an EPUB with two items, an EPUB without items, and an EPUB
  whose second item cannot be processed; every other path fails to parse.
\<close>

definition sample_library :: library where
  "sample_library =
     \<lparr>PdfReader = (\<lambda>p.
        if p = ''/books/new.pdf''
        then Inr (Next (ExtractReturns (Some ''Chapter 1''))
                 (Next (ExtractReturns None)
                 (Next (ExtractRaises (LibraryError ''bad stream''))
                 (Next (ExtractReturns (Some ''   '')) Stop))))
        else if p = ''/books/nopages.pdf'' then Inr Stop
        else Inl (LibraryError ''EOF marker not found'')),
      read_epub = (\<lambda>p.
        if p = ''/books/new.epub'' then Inr (Next (Inr ''<p>a</p>'') (Next (Inr ''<p>b</p>'') Stop))
        else if p = ''/books/noitems.epub'' then Inr Stop
        else if p = ''/books/half.epub''
        then Inr (Next (Inr ''<p>a</p>'') (Next (Inl (LibraryError ''bad markup'')) Stop))
        else Inl (LibraryError ''File is not a zip file''))\<rparr>"

section \<open>What each operation does to the state\<close>

lemma returns_sel [simp]:
  "final (returns s evs) = s" "shown (returns s evs) = evs" "raised (returns s evs) = None"
  by (simp_all add: returns_def)

lemma raises_sel [simp]:
  "final (raises s evs e) = s" "shown (raises s evs e) = evs" "raised (raises s evs e) = Some e"
  by (simp_all add: raises_def)

lemma update_view_final: "final (update_view s) = s"
  by (simp add: update_view_def split: sum.split)

lemma zoom_in_final:
  "final (zoom_in s) = s\<lparr>current_font_size := min (current_font_size s + 1) 40\<rparr>"
  by (simp add: zoom_in_def Let_def update_view_final min_def)

lemma zoom_out_final:
  "final (zoom_out s) = s\<lparr>current_font_size := max (current_font_size s - 1) 8\<rparr>"
  by (simp add: zoom_out_def Let_def update_view_final max_def)

text \<open>The loops append one unit per element yielded and stop at the first exception.\<close>

lemma pdf_loop_eq:
  "pdf_loop it s = \<lparr>final = s\<lparr>pages := pages s @ map page_unit (yielded it)\<rparr>,
                    shown = [], raised = ended it\<rparr>"
  by (induction it arbitrary: s) (simp_all add: returns_def raises_def)

lemma epub_loop_eq:
  "epub_loop items s = \<lparr>final = s\<lparr>pages := pages s @ epub_units items\<rparr>,
                        shown = [], raised = epub_error items\<rparr>"
  by (induction items s rule: epub_loop.induct) (simp_all add: returns_def raises_def)

lemma load_pdf_final:
  "final (load_pdf lib path s) =
     s\<lparr>current_book_type := Some ''pdf'',
       pages := (case PdfReader lib path of Inl e \<Rightarrow> [] | Inr it \<Rightarrow> map page_unit (yielded it))\<rparr>"
  by (simp add: load_pdf_def Let_def pdf_loop_eq split: sum.split)

lemma load_pdf_raised:
  "raised (load_pdf lib path s) = (case PdfReader lib path of Inl e \<Rightarrow> Some e | Inr it \<Rightarrow> ended it)"
  by (simp add: load_pdf_def Let_def pdf_loop_eq split: sum.split)

lemma load_epub_final:
  "final (load_epub lib path s) =
     s\<lparr>current_book_type := Some ''epub'',
       pages := (case read_epub lib path of
                   Inl e \<Rightarrow> []
                 | Inr items \<Rightarrow>
                     if epub_error items = None \<and> epub_units items = []
                     then [''<h3>No readable content found.</h3>''] else epub_units items)\<rparr>"
  by (simp add: load_epub_def Let_def epub_loop_eq split: sum.split)

lemma load_epub_raised:
  "raised (load_epub lib path s) =
     (case read_epub lib path of Inl e \<Rightarrow> Some e | Inr items \<Rightarrow> epub_error items)"
  by (simp add: load_epub_def Let_def epub_loop_eq split: sum.split)

lemma try_load_font:
  "try_load lib path s = Some r \<Longrightarrow> current_font_size (final r) = current_font_size s"
  by (auto simp add: try_load_def Let_def load_pdf_final load_epub_final split: if_splits)

lemma open_file_font: "current_font_size (final (open_file lib path s)) = current_font_size s"
  by (auto simp add: open_file_def update_view_final dest: try_load_font split: option.split)

section \<open>Font size\<close>

text \<open>
  C7. \<^verbatim>\<open>zoom_in\<close> and \<^verbatim>\<open>zoom_out\<close> change no attribute but the font size: for
  every state, the page list, the cursor, the book type, the book path and the book
  title after either operation are those before it.
\<close>

theorem zoom_modifies_only_font_size:
  "pages (final (zoom_in s)) = pages s
   \<and> current_index (final (zoom_in s)) = current_index s
   \<and> current_book_type (final (zoom_in s)) = current_book_type s
   \<and> current_book_path (final (zoom_in s)) = current_book_path s
   \<and> current_book_title (final (zoom_in s)) = current_book_title s
   \<and> pages (final (zoom_out s)) = pages s
   \<and> current_index (final (zoom_out s)) = current_index s
   \<and> current_book_type (final (zoom_out s)) = current_book_type s
   \<and> current_book_path (final (zoom_out s)) = current_book_path s
   \<and> current_book_title (final (zoom_out s)) = current_book_title s"
  by (simp add: zoom_in_final zoom_out_final)

lemma step_font: "font_ok s \<Longrightarrow> font_ok (final (step lib c s))"
proof (cases c)
  case (OpenFile path)
  then show "font_ok s \<Longrightarrow> ?thesis" by (simp add: font_ok_def open_file_font)
next
  case GoPrev
  then show "font_ok s \<Longrightarrow> ?thesis" by (simp add: font_ok_def go_prev_def update_view_final)
next
  case GoNext
  then show "font_ok s \<Longrightarrow> ?thesis" by (simp add: font_ok_def go_next_def update_view_final)
next
  case (GoToPage g)
  then show "font_ok s \<Longrightarrow> ?thesis"
    by (simp add: font_ok_def go_to_page_dialog_def Let_def update_view_final split: prod.split)
next
  case ZoomIn
  then show "font_ok s \<Longrightarrow> ?thesis" by (simp add: font_ok_def zoom_in_final)
next
  case ZoomOut
  then show "font_ok s \<Longrightarrow> ?thesis" by (simp add: font_ok_def zoom_out_final)
next
  case About
  then show "font_ok s \<Longrightarrow> ?thesis" by (simp add: font_ok_def show_about_def)
qed

lemma reachable_font: "reachable lib s \<Longrightarrow> font_ok s"
proof (induction rule: reachable.induct)
  case start
  show ?case by (simp add: font_ok_def init_def)
next
  case (after s c)
  then show ?case by (simp add: step_font)
qed

text \<open>
  C4. The font size is within 8 and 40 in every state the program reaches, and every
  command keeps it there; \<^verbatim>\<open>zoom_in\<close> leaves the smaller of the size plus one and
  40, \<^verbatim>\<open>zoom_out\<close> the larger of the size minus one and 8.
\<close>

theorem font_size_clamped:
  "(reachable lib s \<longrightarrow> 8 \<le> current_font_size s \<and> current_font_size s \<le> 40)
   \<and> (8 \<le> current_font_size s \<and> current_font_size s \<le> 40 \<longrightarrow>
        8 \<le> current_font_size (final (step lib c s))
        \<and> current_font_size (final (step lib c s)) \<le> 40)
   \<and> current_font_size (final (zoom_in s)) = min (current_font_size s + 1) 40
   \<and> current_font_size (final (zoom_out s)) = max (current_font_size s - 1) 8"
  using reachable_font [of lib s] step_font [of s lib c]
  by (simp add: font_ok_def zoom_in_final zoom_out_final)

theorem font_size_clamped_witness:
  "reachable sample_library (final (step sample_library ZoomOut init))
   \<and> 8 \<le> current_font_size (final (step sample_library ZoomOut init))
   \<and> current_font_size (final (step sample_library ZoomOut init)) \<le> 40
   \<and> 8 \<le> current_font_size
            (final (step sample_library ZoomIn (final (step sample_library ZoomOut init))))
   \<and> current_font_size
        (final (step sample_library ZoomIn (final (step sample_library ZoomOut init)))) \<le> 40"
proof -
  have r: "reachable sample_library (final (step sample_library ZoomOut init))"
    by (rule reachable.after [OF reachable.start])
  show ?thesis
    using r font_size_clamped [of sample_library "final (step sample_library ZoomOut init)" ZoomIn]
    by blast
qed

section \<open>Navigation without pages\<close>

text \<open>
  C10. Without pages, \<^verbatim>\<open>go_prev\<close>, \<^verbatim>\<open>go_next\<close> and \<^verbatim>\<open>go_to_page_dialog\<close>
  return at once: no attribute changes and no widget is touched. \<^verbatim>\<open>_update_view\<close>
  then shows the fixed text and returns normally wherever the cursor stands; since the
  subscript \<^verbatim>\<open>pages[current_index]\<close> raises on an empty list for every index, it
  is not evaluated.
\<close>

theorem empty_pages_safe:
  "pages s = [] \<Longrightarrow>
     go_prev s = returns s []
     \<and> go_next s = returns s []
     \<and> go_to_page_dialog getInt s = returns s []
     \<and> update_view s =
         returns s [SetPlainText ''No document loaded.'', SetPointSize (current_font_size s),
                    ShowMessage ''No document loaded'']
     \<and> raised (update_view s) = None
     \<and> py_index (pages s) i = Inl IndexError"
  by (simp add: go_prev_def go_next_def go_to_page_dialog_def update_view_def
      update_statusbar_def py_index_def)

theorem empty_pages_safe_witness:
  "pages init = []
   \<and> go_prev init = returns init []
   \<and> go_next init = returns init []
   \<and> go_to_page_dialog (\<lambda>v lo hi. (7, True)) init = returns init []
   \<and> update_view init =
       returns init [SetPlainText ''No document loaded.'', SetPointSize 12,
                     ShowMessage ''No document loaded'']
   \<and> raised (update_view init) = None"
  using empty_pages_safe [of init "\<lambda>v lo hi. (7, True)" 0]
  by (simp add: init_def)

section \<open>Opening a file\<close>

text \<open>
  C6. When the dialog returns a path whose lowercased extension is neither
  \<^verbatim>\<open>.pdf\<close> nor \<^verbatim>\<open>.epub\<close>, \<^verbatim>\<open>open_file\<close> shows the warning box and returns
  with every attribute as it was.
\<close>

theorem unsupported_extension_keeps_state:
  "path \<noteq> [] \<Longrightarrow> lower (snd (splitext path)) \<noteq> ''.pdf'' \<Longrightarrow>
   lower (snd (splitext path)) \<noteq> ''.epub'' \<Longrightarrow>
     open_file lib path s =
       \<lparr>final = s,
        shown = [Warning ''Unsupported file'' ''Only PDF and EPUB are supported.''],
        raised = None\<rparr>"
  by (simp add: open_file_def try_load_def Let_def returns_def)

theorem unsupported_extension_keeps_state_witness:
  "''/books/notes.txt'' \<noteq> []
   \<and> lower (snd (splitext ''/books/notes.txt'')) = ''.txt''
   \<and> final (open_file sample_library ''/books/notes.txt'' three_pages) = three_pages
   \<and> shown (open_file sample_library ''/books/notes.txt'' three_pages) =
       [Warning ''Unsupported file'' ''Only PDF and EPUB are supported.'']"
proof -
  have e: "lower (snd (splitext ''/books/notes.txt'')) = ''.txt''"
    by code_simp
  show ?thesis
    using e unsupported_extension_keeps_state [of "''/books/notes.txt''" sample_library three_pages]
    by simp
qed

section \<open>Content units of a PDF\<close>

lemma strip_nonempty: "strip t \<noteq> [] \<Longrightarrow> t \<noteq> []"
  by (auto simp add: strip_def)

lemma strip_placeholder: "strip ''[Empty page]'' = ''[Empty page]''"
  by (simp add: strip_def is_space_def)

lemma page_unit_visible: "page_unit page \<noteq> [] \<and> strip (page_unit page) \<noteq> []"
  by (auto simp add: page_unit_def Let_def strip_placeholder dest: strip_nonempty)

text \<open>
  C9. Every unit that \<^verbatim>\<open>load_pdf\<close> stores is a string that is neither empty nor
  whitespace only. When the parser opens the file, the units are those of the pages
  yielded, in order: the placeholder \<^verbatim>\<open>[Empty page]\<close> for a page whose text
  extraction raises, returns \<^verbatim>\<open>None\<close>, or returns a string whose \<^verbatim>\<open>strip()\<close> is
  empty, and the extracted text otherwise.
\<close>

theorem load_pdf_units:
  "(\<forall>u \<in> set (pages (final (load_pdf lib path s))). u \<noteq> [] \<and> strip u \<noteq> [])
   \<and> (PdfReader lib path = Inr it \<longrightarrow>
        pages (final (load_pdf lib path s)) = map page_unit (yielded it))
   \<and> page_unit (ExtractRaises e) = ''[Empty page]''
   \<and> page_unit (ExtractReturns None) = ''[Empty page]''
   \<and> (strip t = [] \<longrightarrow> page_unit (ExtractReturns (Some t)) = ''[Empty page]'')
   \<and> (strip t \<noteq> [] \<longrightarrow> page_unit (ExtractReturns (Some t)) = t)"
proof -
  have "\<forall>u \<in> set (pages (final (load_pdf lib path s))). u \<noteq> [] \<and> strip u \<noteq> []"
    by (auto simp add: load_pdf_final page_unit_visible split: sum.split)
  moreover have "PdfReader lib path = Inr it \<longrightarrow>
        pages (final (load_pdf lib path s)) = map page_unit (yielded it)"
    by (simp add: load_pdf_final)
  moreover have "page_unit (ExtractRaises e) = ''[Empty page]''"
    by (simp add: page_unit_def page_text_def strip_def)
  moreover have "page_unit (ExtractReturns None) = ''[Empty page]''"
    by (simp add: page_unit_def page_text_def strip_def)
  moreover have "strip t = [] \<longrightarrow> page_unit (ExtractReturns (Some t)) = ''[Empty page]''"
    by (simp add: page_unit_def page_text_def strip_def)
  moreover have "strip t \<noteq> [] \<longrightarrow> page_unit (ExtractReturns (Some t)) = t"
    by (auto simp add: page_unit_def page_text_def)
  ultimately show ?thesis by blast
qed

theorem load_pdf_units_witness:
  "pages (final (load_pdf sample_library ''/books/new.pdf'' three_pages)) =
     [''Chapter 1'', ''[Empty page]'', ''[Empty page]'', ''[Empty page]'']
   \<and> strip ''   '' = []
   \<and> strip ''Chapter 1'' \<noteq> []
   \<and> ''[Empty page]'' \<in> set (pages (final (load_pdf sample_library ''/books/new.pdf'' three_pages)))
   \<and> strip ''[Empty page]'' \<noteq> []"
proof -
  let ?it = "Next (ExtractReturns (Some ''Chapter 1''))
               (Next (ExtractReturns None)
               (Next (ExtractRaises (LibraryError ''bad stream''))
               (Next (ExtractReturns (Some ''   '')) Stop)))"
  have rd: "PdfReader sample_library ''/books/new.pdf'' = Inr ?it"
    by (simp add: sample_library_def)
  have b: "strip ''   '' = []" by (simp add: strip_def is_space_def)
  have c: "strip ''Chapter 1'' = ''Chapter 1''" by (simp add: strip_def is_space_def)
  note blank = load_pdf_units [of sample_library "''/books/new.pdf''" three_pages ?it
      "LibraryError ''bad stream''" "''   ''"]
  note titled = load_pdf_units [of sample_library "''/books/new.pdf''" three_pages ?it
      "LibraryError ''bad stream''" "''Chapter 1''"]
  have p: "pages (final (load_pdf sample_library ''/books/new.pdf'' three_pages)) =
     [''Chapter 1'', ''[Empty page]'', ''[Empty page]'', ''[Empty page]'']"
    using blank titled rd b c by simp
  have m: "''[Empty page]'' \<in> set (pages (final (load_pdf sample_library ''/books/new.pdf'' three_pages)))"
    using p by simp
  have "strip ''[Empty page]'' \<noteq> []"
    using blank m by blast
  then show ?thesis using p b c m by simp
qed

lemma ext_of_empty: "lower (snd (splitext [])) = []"
  by (simp add: splitext_def rfind_def lower_def)

lemma open_file_loaded:
  "try_load lib path s = Some r \<Longrightarrow> raised r = None \<Longrightarrow> path \<noteq> [] \<Longrightarrow>
     final (open_file lib path s) =
       (final r)\<lparr>current_book_path := Some path, current_book_title := basename path,
                 current_index := 0\<rparr>"
  by (simp add: open_file_def update_view_final)

text \<open>
  C5. When the file chosen has the extension \<^verbatim>\<open>.pdf\<close> or \<^verbatim>\<open>.epub\<close> (in any
  case of letters) and its extractor completes without an exception, the cursor is 0
  afterwards and the page list is the list of units just extracted, whatever it was
  before: for a PDF one unit per page, for an EPUB the cleaned HTML of each item, or the
  placeholder alone when there is no item.
\<close>

theorem open_file_success:
  "(lower (snd (splitext path)) = ''.pdf'' \<and> PdfReader lib path = Inr it \<and> ended it = None \<longrightarrow>
      current_index (final (open_file lib path s)) = 0
      \<and> pages (final (open_file lib path s)) = map page_unit (yielded it))
   \<and> (lower (snd (splitext path)) = ''.epub'' \<and> read_epub lib path = Inr items
       \<and> epub_error items = None \<longrightarrow>
      current_index (final (open_file lib path s)) = 0
      \<and> pages (final (open_file lib path s)) =
          (if epub_units items = [] then [''<h3>No readable content found.</h3>'']
           else epub_units items))"
proof (intro conjI impI)
  assume a: "lower (snd (splitext path)) = ''.pdf'' \<and> PdfReader lib path = Inr it \<and> ended it = None"
  then have ne: "path \<noteq> []" using ext_of_empty by auto
  from a have t: "try_load lib path s = Some (load_pdf lib path s)"
    by (simp add: try_load_def)
  from a have r: "raised (load_pdf lib path s) = None"
    by (simp add: load_pdf_raised)
  from a show "current_index (final (open_file lib path s)) = 0"
    by (simp add: open_file_loaded [OF t r ne])
  from a show "pages (final (open_file lib path s)) = map page_unit (yielded it)"
    by (simp add: open_file_loaded [OF t r ne] load_pdf_final)
next
  assume a: "lower (snd (splitext path)) = ''.epub'' \<and> read_epub lib path = Inr items
       \<and> epub_error items = None"
  then have ne: "path \<noteq> []" using ext_of_empty by auto
  from a have t: "try_load lib path s = Some (load_epub lib path s)"
    by (simp add: try_load_def)
  from a have r: "raised (load_epub lib path s) = None"
    by (simp add: load_epub_raised)
  from a show "current_index (final (open_file lib path s)) = 0"
    by (simp add: open_file_loaded [OF t r ne])
  from a show "pages (final (open_file lib path s)) =
          (if epub_units items = [] then [''<h3>No readable content found.</h3>'']
           else epub_units items)"
    by (simp add: open_file_loaded [OF t r ne] load_epub_final)
qed

theorem open_file_success_witness:
  "lower (snd (splitext ''/books/new.pdf'')) = ''.pdf''
   \<and> current_index three_pages = 2
   \<and> current_index (final (open_file sample_library ''/books/new.pdf'' three_pages)) = 0
   \<and> pages (final (open_file sample_library ''/books/new.pdf'' three_pages)) =
       [''Chapter 1'', ''[Empty page]'', ''[Empty page]'', ''[Empty page]'']
   \<and> lower (snd (splitext ''/books/new.epub'')) = ''.epub''
   \<and> current_index (final (open_file sample_library ''/books/new.epub'' three_pages)) = 0
   \<and> pages (final (open_file sample_library ''/books/new.epub'' three_pages)) =
       [''<p>a</p>'', ''<p>b</p>'']"
proof -
  let ?it = "Next (ExtractReturns (Some ''Chapter 1''))
               (Next (ExtractReturns None)
               (Next (ExtractRaises (LibraryError ''bad stream''))
               (Next (ExtractReturns (Some ''   '')) Stop)))"
  let ?items = "Next (Inr ''<p>a</p>'') (Next (Inr ''<p>b</p>'') Stop) :: epub_item iteration"
  have e1: "lower (snd (splitext ''/books/new.pdf'')) = ''.pdf''" by code_simp
  have e2: "lower (snd (splitext ''/books/new.epub'')) = ''.epub''" by code_simp
  have rd: "PdfReader sample_library ''/books/new.pdf'' = Inr ?it"
    by (simp add: sample_library_def)
  have re: "read_epub sample_library ''/books/new.epub'' = Inr ?items"
    by (simp add: sample_library_def)
  have u: "map page_unit (yielded ?it) = [''Chapter 1'', ''[Empty page]'', ''[Empty page]'', ''[Empty page]'']"
    by (simp add: page_unit_def page_text_def strip_def is_space_def)
  have i: "current_index three_pages = 2" by (simp add: three_pages_def)
  from open_file_success [of "''/books/new.pdf''" sample_library ?it three_pages ?items] e1 rd u
  have p: "current_index (final (open_file sample_library ''/books/new.pdf'' three_pages)) = 0
     \<and> pages (final (open_file sample_library ''/books/new.pdf'' three_pages)) =
       [''Chapter 1'', ''[Empty page]'', ''[Empty page]'', ''[Empty page]'']"
    by simp
  from open_file_success [of "''/books/new.epub''" sample_library ?it three_pages ?items] e2 re
  have q: "current_index (final (open_file sample_library ''/books/new.epub'' three_pages)) = 0
     \<and> pages (final (open_file sample_library ''/books/new.epub'' three_pages)) =
       [''<p>a</p>'', ''<p>b</p>'']"
    by simp
  show ?thesis using e1 e2 i p q by simp
qed

section \<open>Loads that leave the reader in an unexpected state\<close>

text \<open>
  C2. A PDF without pages: \<^verbatim>\<open>load_pdf\<close> returns normally and the page list is
  empty; no placeholder is substituted. \<^verbatim>\<open>load_epub\<close> on an EPUB without
  document items returns normally with the placeholder as its only unit.
\<close>

theorem load_pdf_without_pages:
  "raised (load_pdf sample_library ''/books/nopages.pdf'' init) = None
   \<and> pages (final (load_pdf sample_library ''/books/nopages.pdf'' init)) = []
   \<and> raised (load_epub sample_library ''/books/noitems.epub'' init) = None
   \<and> pages (final (load_epub sample_library ''/books/noitems.epub'' init)) =
       [''<h3>No readable content found.</h3>'']"
  by (simp add: load_pdf_raised load_pdf_final load_epub_raised load_epub_final sample_library_def)

text \<open>
  C1. With three pages of a PDF loaded and the cursor on the last one, opening a PDF
  that the parser rejects shows the error box and leaves the page list empty. Opening
  an EPUB whose second item fails shows the error box and leaves one page, the book
  type \<^verbatim>\<open>epub\<close> and the cursor at 2; the next \<^verbatim>\<open>zoom_in\<close> then raises
  \<open>IndexError\<close> at the subscript of \<^verbatim>\<open>_update_view\<close>.
\<close>

theorem failed_load_changes_state:
  "pages three_pages = [''one'', ''two'', ''three'']
   \<and> current_book_type three_pages = Some ''pdf''
   \<and> shown (open_file sample_library ''/books/broken.pdf'' three_pages) =
       [Critical ''Error'' (''Failed to open file:'' @ [CHR 0x0A] @ ''EOF marker not found'')]
   \<and> pages (final (open_file sample_library ''/books/broken.pdf'' three_pages)) = []
   \<and> shown (open_file sample_library ''/books/half.epub'' three_pages) =
       [Critical ''Error'' (''Failed to open file:'' @ [CHR 0x0A] @ ''bad markup'')]
   \<and> pages (final (open_file sample_library ''/books/half.epub'' three_pages)) = [''<p>a</p>'']
   \<and> current_book_type (final (open_file sample_library ''/books/half.epub'' three_pages)) = Some ''epub''
   \<and> current_index (final (open_file sample_library ''/books/half.epub'' three_pages)) = 2
   \<and> raised (zoom_in (final (open_file sample_library ''/books/half.epub'' three_pages))) = Some IndexError"
proof -
  have e1: "lower (snd (splitext ''/books/broken.pdf'')) = ''.pdf''" by code_simp
  have e2: "lower (snd (splitext ''/books/half.epub'')) = ''.epub''" by code_simp
  have o1: "open_file sample_library ''/books/broken.pdf'' three_pages =
     returns (three_pages\<lparr>current_book_type := Some ''pdf'', pages := []\<rparr>)
       [Critical ''Error'' (''Failed to open file:'' @ [CHR 0x0A] @ ''EOF marker not found'')]"
    using e1 by (simp add: open_file_def try_load_def load_pdf_def sample_library_def)
  have o2: "open_file sample_library ''/books/half.epub'' three_pages =
     returns (three_pages\<lparr>current_book_type := Some ''epub'', pages := [''<p>a</p>'']\<rparr>)
       [Critical ''Error'' (''Failed to open file:'' @ [CHR 0x0A] @ ''bad markup'')]"
    using e2 by (simp add: open_file_def try_load_def load_epub_def sample_library_def raises_def returns_def)
  show ?thesis
    unfolding o1 o2
    by (simp add: three_pages_def zoom_in_def update_view_def py_index_def)
qed


section \<open>The cursor\<close>

lemma go_prev_cursor: "cursor_ok s \<Longrightarrow> cursor_ok (final (go_prev s))"
  by (auto simp add: go_prev_def update_view_final cursor_ok_def cursor_in_range_def)

lemma go_next_cursor: "cursor_ok s \<Longrightarrow> cursor_ok (final (go_next s))"
  by (auto simp add: go_next_def update_view_final cursor_ok_def cursor_in_range_def)

lemma go_to_page_cursor:
  "well_answered lib s (GoToPage getInt) \<Longrightarrow> cursor_ok s \<Longrightarrow>
     cursor_ok (final (go_to_page_dialog getInt s))"
  by (auto simp add: go_to_page_dialog_def Let_def update_view_final cursor_ok_def
      cursor_in_range_def split: prod.splits if_splits)

lemma open_file_cursor:
  "well_answered lib s (OpenFile path) \<Longrightarrow> cursor_ok s \<Longrightarrow>
     cursor_ok (final (open_file lib path s))"
  by (cases "pages (final (the (try_load lib path s)))")
     (auto simp add: open_file_def update_view_final cursor_ok_def cursor_in_range_def
      split: option.splits)

lemma step_cursor:
  assumes "cursor_ok s" and "well_answered lib s c"
  shows "cursor_ok (final (step lib c s))"
proof (cases c)
  case (OpenFile path)
  with assms show ?thesis by (simp add: open_file_cursor)
next
  case GoPrev
  with assms show ?thesis by (simp add: go_prev_cursor)
next
  case GoNext
  with assms show ?thesis by (simp add: go_next_cursor)
next
  case (GoToPage getInt)
  with assms show ?thesis using go_to_page_cursor [of lib s getInt] by simp
next
  case ZoomIn
  with assms show ?thesis by (simp add: zoom_in_final cursor_ok_def cursor_in_range_def)
next
  case ZoomOut
  with assms show ?thesis by (simp add: zoom_out_final cursor_ok_def cursor_in_range_def)
next
  case About
  with assms show ?thesis by (simp add: show_about_def)
qed

text \<open>
  C3, as stated, fails in the state built by \<^verbatim>\<open>__init__\<close>: there is no page, so
  the interval from 0 to \<^verbatim>\<open>len(pages) - 1\<close> is empty and the cursor 0 is outside it.
\<close>

theorem initial_cursor_outside_bounds:
  "\<not> (0 \<le> current_index init \<and> current_index init \<le> int (length (pages init)) - 1)"
  by (simp add: init_def)

text \<open>
  C3, amended. Initially there is no page and the cursor is 0. Whenever there is a
  page, the cursor lies between 0 and \<^verbatim>\<open>len(pages) - 1\<close>: this holds initially and
  is kept by every command, that is \<^verbatim>\<open>open_file\<close>, \<^verbatim>\<open>go_prev\<close>,
  \<^verbatim>\<open>go_next\<close>, \<^verbatim>\<open>go_to_page_dialog\<close>, \<^verbatim>\<open>zoom_in\<close>, \<^verbatim>\<open>zoom_out\<close> and the
  about box, provided the page dialog answers within the bounds it was given and the
  extractor of an opened file does not raise.
\<close>

theorem cursor_kept_in_range:
  "(pages init = [] \<and> current_index init = 0)
   \<and> (cursor_ok s \<and> well_answered lib s c \<longrightarrow> cursor_ok (final (step lib c s)))
   \<and> (cursor_ok s \<and> well_answered lib s c \<and> pages (final (step lib c s)) \<noteq> [] \<longrightarrow>
        0 \<le> current_index (final (step lib c s))
        \<and> current_index (final (step lib c s)) \<le> int (length (pages (final (step lib c s)))) - 1)"
  using step_cursor [of s lib c]
  by (auto simp add: init_def cursor_ok_def cursor_in_range_def)

theorem cursor_kept_in_range_witness:
  "cursor_ok three_pages
   \<and> well_answered sample_library three_pages (GoToPage (\<lambda>v lo hi. (lo, True)))
   \<and> current_index (final (step sample_library (GoToPage (\<lambda>v lo hi. (lo, True))) three_pages)) = 0
   \<and> cursor_ok (final (step sample_library (GoToPage (\<lambda>v lo hi. (lo, True))) three_pages))
   \<and> well_answered sample_library three_pages (OpenFile ''/books/new.epub'')
   \<and> pages (final (step sample_library (OpenFile ''/books/new.epub'') three_pages)) \<noteq> []
   \<and> 0 \<le> current_index (final (step sample_library (OpenFile ''/books/new.epub'') three_pages))
   \<and> current_index (final (step sample_library (OpenFile ''/books/new.epub'') three_pages))
       \<le> int (length (pages (final (step sample_library (OpenFile ''/books/new.epub'') three_pages)))) - 1"
proof -
  let ?g = "\<lambda>(v::int) (lo::int) (hi::int). (lo, True)"
  have c: "cursor_ok three_pages"
    by (simp add: cursor_ok_def cursor_in_range_def three_pages_def)
  have w1: "well_answered sample_library three_pages (GoToPage ?g)"
    by (simp add: three_pages_def)
  have i: "current_index (final (step sample_library (GoToPage ?g) three_pages)) = 0"
    by (simp add: go_to_page_dialog_def update_view_final three_pages_def)
  have e: "lower (snd (splitext ''/books/new.epub'')) = ''.epub''" by code_simp
  have re: "read_epub sample_library ''/books/new.epub'' =
      Inr (Next (Inr ''<p>a</p>'') (Next (Inr ''<p>b</p>'') Stop))"
    by (simp add: sample_library_def)
  have t: "try_load sample_library ''/books/new.epub'' three_pages =
      Some (load_epub sample_library ''/books/new.epub'' three_pages)"
    using e by (simp add: try_load_def Let_def)
  have w2: "well_answered sample_library three_pages (OpenFile ''/books/new.epub'')"
    by (simp add: t load_epub_raised re)
  have p: "pages (final (step sample_library (OpenFile ''/books/new.epub'') three_pages)) \<noteq> []"
    by (simp add: open_file_def t load_epub_raised load_epub_final update_view_final re)
  show ?thesis
    using c w1 i w2 p
      cursor_kept_in_range [of three_pages sample_library "GoToPage ?g"]
      cursor_kept_in_range [of three_pages sample_library "OpenFile ''/books/new.epub''"]
    by blast
qed


section \<open>What the filters of the dialog match\<close>



























end
